theory Spec2Isabelle
  imports Main
begin

section \<open>Strings\<close>

text \<open>
  A JavaScript string is modelled as a HOL \<open>string\<close>: the list of its code units, each
  in the range U+0000 .. U+00FF. Characters beyond that range are outside the model.
\<close>

text \<open>
  The white space of \<open>String.prototype.trim\<close>, of the regular expression classes
  \<open>\s\<close> / \<open>\S\<close> and of \<open>Number(...)\<close>: TAB, LF, VT, FF, CR, SPACE and NBSP are the
  members below U+0100.
\<close>

definition isWhite :: "char \<Rightarrow> bool" where
  "isWhite c = (c = CHR 0x09 \<or> c = CHR 0x0A \<or> c = CHR 0x0B \<or> c = CHR 0x0C
              \<or> c = CHR 0x0D \<or> c = CHR '' '' \<or> c = CHR 0xA0)"

definition trimStart :: "string \<Rightarrow> string" where
  "trimStart s = dropWhile isWhite s"

definition trim :: "string \<Rightarrow> string" where
  "trim s = rev (dropWhile isWhite (rev (dropWhile isWhite s)))"

text \<open>\<open>s.split('\n')\<close>: never the empty list, \<open>"".split('\n')\<close> is \<open>[""]\<close>.\<close>

fun split_nl :: "string \<Rightarrow> string list" where
  "split_nl [] = [[]]"
| "split_nl (c # cs) =
     (if c = CHR 0x0A then [] # split_nl cs
      else (case split_nl cs of l # ls \<Rightarrow> (c # l) # ls | [] \<Rightarrow> [[c]]))"

text \<open>\<open>lines.join('\n')\<close>.\<close>

fun join_nl :: "string list \<Rightarrow> string" where
  "join_nl [] = []"
| "join_nl [l] = l"
| "join_nl (l # m # ls) = l @ CHR 0x0A # join_nl (m # ls)"

text \<open>\<open>line.search(/\S/)\<close>: the index of the first character that is not white space, \<open>-1\<close> when there is none.\<close>

definition search_nonspace :: "string \<Rightarrow> int" where
  "search_nonspace l =
     (if \<forall>c \<in> set l. isWhite c then - 1 else int (length (takeWhile isWhite l)))"

text \<open>\<open>s.startsWith('-')\<close>, \<open>s.includes(':')\<close>, \<open>s.indexOf(':')\<close>.\<close>

definition startsWithDash :: "string \<Rightarrow> bool" where
  "startsWithDash s = (case s of [] \<Rightarrow> False | c # _ \<Rightarrow> c = CHR ''-'')"

definition includesColon :: "string \<Rightarrow> bool" where
  "includesColon s = (CHR '':'' \<in> set s)"

definition indexOfColon :: "string \<Rightarrow> nat" where
  "indexOfColon s = length (takeWhile (\<lambda>c. c \<noteq> CHR '':'') s)"

section \<open>Decimal digits, \<open>toString\<close>, \<open>padStart\<close> and \<open>parseInt\<close> on integers\<close>

definition isDigit :: "char \<Rightarrow> bool" where
  "isDigit c = (c \<in> set ''0123456789'')"

definition digitVal :: "char \<Rightarrow> nat" where
  "digitVal c = of_char c - 48"

definition digitChar :: "nat \<Rightarrow> char" where
  "digitChar n = ''0123456789'' ! n"

text \<open>The decimal digits of a natural number, most significant first; \<open>0\<close> is \<open>"0"\<close>.\<close>

fun natToString :: "nat \<Rightarrow> string" where
  "natToString n = (if n < 10 then [digitChar n] else natToString (n div 10) @ [digitChar (n mod 10)])"

declare natToString.simps [simp del]

text \<open>The value of a string of decimal digits, read left to right.\<close>

definition digitsVal :: "string \<Rightarrow> nat" where
  "digitsVal ds = foldl (\<lambda>acc c. 10 * acc + digitVal c) 0 ds"

text \<open>\<open>n.toString()\<close> for an integral number \<open>n\<close>.\<close>

definition intToString :: "int \<Rightarrow> string" where
  "intToString n = (if n < 0 then CHR ''-'' # natToString (nat (- n)) else natToString (nat n))"

text \<open>\<open>s.padStart(2, '0')\<close>.\<close>

definition padStart2 :: "string \<Rightarrow> string" where
  "padStart2 s = replicate (2 - length s) CHR ''0'' @ s"

text \<open>
  \<open>parseInt(t, 10)\<close>: leading white space is skipped, one sign is accepted, then the longest
  run of decimal digits is read; \<open>None\<close> stands for \<open>NaN\<close> (no digit there).
\<close>

definition parseInt10 :: "string \<Rightarrow> int option" where
  "parseInt10 t =
     (let s = trimStart t;
          neg = (case s of c # _ \<Rightarrow> c = CHR ''-'' | [] \<Rightarrow> False);
          body = (case s of c # r \<Rightarrow> if c = CHR ''-'' \<or> c = CHR ''+'' then r else s | [] \<Rightarrow> s);
          ds = takeWhile isDigit body
      in if ds = [] then None
         else Some (if neg then - int (digitsVal ds) else int (digitsVal ds)))"

section \<open>The token dictionary\<close>

text \<open>
  \<open>TokenMap\<close> and \<open>ReverseTokenMap\<close> are \<open>Record<string, string>\<close> objects. They are
  modelled as association lists in property order, with the own properties only: an
  assignment \<open>o[k] = v\<close> replaces the value of an existing property in place and appends a
  new property at the end.
\<close>

type_synonym TokenMap = "(string \<times> string) list"

fun setProp :: "string \<Rightarrow> 'v \<Rightarrow> (string \<times> 'v) list \<Rightarrow> (string \<times> 'v) list" where
  "setProp k v [] = [(k, v)]"
| "setProp k v (p # ps) = (if fst p = k then (k, v) # ps else p # setProp k v ps)"

record dict =
  keyToToken :: TokenMap
  tokenToKey :: TokenMap
  nextTokenId :: int

text \<open>
  The constructor. \<open>{ ...initialMap }\<close> copies the entries in order, the \<open>reduce\<close> registers
  each entry in the other direction (a later entry with the same token wins), and the
  counter starts one above the largest \<open>parseInt\<close> of a token, at 1 when there is none.
\<close>

definition existingIds :: "TokenMap \<Rightarrow> int list" where
  "existingIds m = List.map_filter parseInt10 (map snd m)"

text \<open>The object with the given entries: a later entry for the same key replaces the earlier one.\<close>

definition objectOf :: "(string \<times> 'v) list \<Rightarrow> (string \<times> 'v) list" where
  "objectOf es = foldl (\<lambda>acc (k, v). setProp k v acc) [] es"

definition constructor :: "TokenMap \<Rightarrow> dict" where
  "constructor initialMap =
     (let k2t = objectOf initialMap;
          t2k = foldl (\<lambda>acc (k, v). setProp v k acc) [] (objectOf initialMap);
          ids = existingIds k2t
      in \<lparr> keyToToken = k2t, tokenToKey = t2k,
           nextTokenId = (if ids \<noteq> [] then foldl max (hd ids) (tl ids) + 1 else 1) \<rparr>)"

text \<open>
  A property read used as a condition or as the left operand of \<open>||\<close> is a truthiness
  test: a missing property (\<open>undefined\<close>) and the empty string are both falsy.
\<close>

definition truthyProp :: "TokenMap \<Rightarrow> string \<Rightarrow> string option" where
  "truthyProp m k = (case map_of m k of Some t \<Rightarrow> if t \<noteq> [] then Some t else None | None \<Rightarrow> None)"

text \<open>\<open>getToken\<close>: the registered token when \<open>this.keyToToken[key]\<close> is truthy, a freshly minted one otherwise.\<close>

definition getToken :: "string \<Rightarrow> dict \<Rightarrow> string \<times> dict" where
  "getToken key d =
     (case truthyProp (keyToToken d) key of
        Some t \<Rightarrow> (t, d)
      | None \<Rightarrow>
          (let token = padStart2 (intToString (nextTokenId d))
           in (token, d\<lparr> keyToToken := setProp key token (keyToToken d),
                         tokenToKey := setProp token key (tokenToKey d),
                         nextTokenId := nextTokenId d + 1 \<rparr>)))"

text \<open>
  \<open>getKey\<close>: \<open>this.tokenToKey[token] || ("UNKNOWN_" + token)\<close>. The placeholder is
  also returned when the registered key is the empty string, which is falsy.
\<close>

definition getKey :: "dict \<Rightarrow> string \<Rightarrow> string" where
  "getKey d token =
     (case truthyProp (tokenToKey d) token of
        Some k \<Rightarrow> k
      | None \<Rightarrow> ''UNKNOWN_'' @ token)"

section \<open>Numbers\<close>

text \<open>
  A JavaScript number other than \<open>NaN\<close> is modelled by its exact decimal value:
  \<open>Fin m e\<close> is \<open>m * 10^e\<close>, \<open>PInf\<close> and \<open>NInf\<close> are the two infinities. The rounding of
  a numeric literal to the nearest binary64 value is outside the model, and so is the
  sign of zero. The normal form of a finite value has a mantissa that is not a multiple
  of ten, and \<open>Fin 0 0\<close> for zero.
\<close>

datatype jsnum = Fin int int | PInf | NInf

function normDec :: "int \<Rightarrow> int \<Rightarrow> jsnum" where
  "normDec m e =
     (if m = 0 then Fin 0 0
      else if m mod 10 = 0 then normDec (m div 10) (e + 1)
      else Fin m e)"
  by pat_completeness auto
termination
  by (relation "measure (\<lambda>(m, e). nat \<bar>m\<bar>)") auto

declare normDec.simps [simp del]


definition isFinite :: "jsnum \<Rightarrow> bool" where
  "isFinite n = (case n of Fin m e \<Rightarrow> True | _ \<Rightarrow> False)"

subsection \<open>\<open>Number.prototype.toString\<close>\<close>

text \<open>
  With \<open>s\<close> the \<open>k\<close> significant digits of the value and \<open>n\<close> the position of the decimal
  point: plain digits followed by zeros when \<open>k \<le> n \<le> 21\<close>, a decimal point inside the
  digits when \<open>0 < n \<le> 21\<close>, \<open>0.\<close> and zeros before the digits when \<open>-6 < n \<le> 0\<close>, and
  the exponent notation otherwise.
\<close>

definition posToString :: "string \<Rightarrow> int \<Rightarrow> string" where
  "posToString s e =
     (let k = int (length s); n = k + e in
      if k \<le> n \<and> n \<le> 21 then s @ replicate (nat (n - k)) CHR ''0''
      else if 0 < n \<and> n \<le> 21 then take (nat n) s @ ''.'' @ drop (nat n) s
      else if - 6 < n \<and> n \<le> 0 then ''0.'' @ replicate (nat (- n)) CHR ''0'' @ s
      else (let ex = n - 1;
                exs = (if ex < 0 then ''-'' else ''+'') @ natToString (nat \<bar>ex\<bar>)
            in if k = 1 then s @ ''e'' @ exs
               else hd s # ''.'' @ tl s @ ''e'' @ exs))"

definition numToString :: "jsnum \<Rightarrow> string" where
  "numToString x =
     (case x of
        PInf \<Rightarrow> ''Infinity''
      | NInf \<Rightarrow> ''-Infinity''
      | Fin m0 e0 \<Rightarrow>
          (case normDec m0 e0 of
             Fin m e \<Rightarrow>
               if m = 0 then ''0''
               else (if m < 0 then ''-'' else []) @ posToString (natToString (nat \<bar>m\<bar>)) e
           | _ \<Rightarrow> ''0''))"

subsection \<open>\<open>Number(string)\<close>\<close>

text \<open>
  The string-to-number conversion: white space is trimmed on both sides; the empty string
  is 0; then either a binary, octal or hexadecimal integer literal without sign, or an
  optionally signed \<open>Infinity\<close> or decimal literal (digits, optional fraction, optional
  exponent; at least one digit before the exponent). Anything else is \<open>NaN\<close>, here \<open>None\<close>.
\<close>

definition hexVal :: "char \<Rightarrow> nat option" where
  "hexVal c =
     (if isDigit c then Some (digitVal c)
      else if c \<in> set ''abcdef'' then Some (of_char c - 87)
      else if c \<in> set ''ABCDEF'' then Some (of_char c - 55)
      else None)"

definition radixVal :: "nat \<Rightarrow> string \<Rightarrow> nat option" where
  "radixVal b ds =
     (if ds \<noteq> [] \<and> (\<forall>c \<in> set ds. case hexVal c of Some v \<Rightarrow> v < b | None \<Rightarrow> False)
      then Some (foldl (\<lambda>acc c. b * acc + the (hexVal c)) 0 ds)
      else None)"

definition nonDecimalLiteral :: "string \<Rightarrow> nat option" where
  "nonDecimalLiteral t =
     (case t of
        z # x # ds \<Rightarrow>
          if z \<noteq> CHR ''0'' then None
          else if x = CHR ''x'' \<or> x = CHR ''X'' then radixVal 16 ds
          else if x = CHR ''o'' \<or> x = CHR ''O'' then radixVal 8 ds
          else if x = CHR ''b'' \<or> x = CHR ''B'' then radixVal 2 ds
          else None
      | _ \<Rightarrow> None)"

definition exponentPart :: "string \<Rightarrow> int option" where
  "exponentPart r =
     (case r of
        [] \<Rightarrow> Some 0
      | c # r1 \<Rightarrow>
          if c = CHR ''e'' \<or> c = CHR ''E'' then
            (let neg = (case r1 of s # _ \<Rightarrow> s = CHR ''-'' | [] \<Rightarrow> False);
                 ds = (case r1 of s # r2 \<Rightarrow> if s = CHR ''-'' \<or> s = CHR ''+'' then r2 else r1
                                | [] \<Rightarrow> r1)
             in if ds \<noteq> [] \<and> (\<forall>c \<in> set ds. isDigit c)
                then Some (if neg then - int (digitsVal ds) else int (digitsVal ds))
                else None)
          else None)"

definition unsignedDecimal :: "string \<Rightarrow> (nat \<times> int) option" where
  "unsignedDecimal u =
     (let ip = takeWhile isDigit u;
          r1 = dropWhile isDigit u;
          fp = (case r1 of c # r \<Rightarrow> if c = CHR ''.'' then takeWhile isDigit r else [] | [] \<Rightarrow> []);
          r2 = (case r1 of c # r \<Rightarrow> if c = CHR ''.'' then dropWhile isDigit r else r1 | [] \<Rightarrow> r1)
      in if ip = [] \<and> fp = [] then None
         else (case exponentPart r2 of
                 None \<Rightarrow> None
               | Some ex \<Rightarrow> Some (digitsVal (ip @ fp), ex - int (length fp))))"

definition strDecimalLiteral :: "string \<Rightarrow> jsnum option" where
  "strDecimalLiteral t =
     (let neg = (case t of c # _ \<Rightarrow> c = CHR ''-'' | [] \<Rightarrow> False);
          u = (case t of c # r \<Rightarrow> if c = CHR ''-'' \<or> c = CHR ''+'' then r else t | [] \<Rightarrow> t)
      in if u = ''Infinity'' then Some (if neg then NInf else PInf)
         else (case unsignedDecimal u of
                 None \<Rightarrow> None
               | Some (m, e) \<Rightarrow> Some (normDec (if neg then - int m else int m) e)))"

definition toNumber :: "string \<Rightarrow> jsnum option" where
  "toNumber s =
     (let t = trim s in
      if t = [] then Some (Fin 0 0)
      else (case nonDecimalLiteral t of
              Some n \<Rightarrow> Some (normDec (int n) 0)
            | None \<Rightarrow> strDecimalLiteral t))"

section \<open>JSON values\<close>

text \<open>
  An object is the list of its entries in the order in which \<open>Object.keys\<close> and
  \<open>Object.entries\<close> enumerate them.
\<close>

datatype json =
    JNull
  | JBool bool
  | JNum jsnum
  | JStr string
  | JArr "json list"
  | JObj "(string \<times> json) list"

text \<open>\<open>typeof v === 'object' && v !== null\<close>.\<close>

fun isComplex :: "json \<Rightarrow> bool" where
  "isComplex (JArr _) = True"
| "isComplex (JObj _) = True"
| "isComplex _ = False"

section \<open>The encoder: \<open>jsonToToon\<close>\<close>

text \<open>
  The closure \<open>process\<close> pushes lines onto the shared array \<open>lines\<close> and mints tokens in the
  dictionary; both are threaded through as the state. \<open>forEachItem\<close> is the \<open>forEach\<close>
  over the elements of an array, \<open>forEachKey\<close> the one over the keys of an object that is
  an element of an array, \<open>forEachEntry\<close> the one over the entries of an object.
  The value that \<open>process\<close> returns for an array or an object is used by no caller.
\<close>

type_synonym enc_state = "string list \<times> dict"

definition push :: "string \<Rightarrow> enc_state \<Rightarrow> enc_state" where
  "push l st = (fst st @ [l], snd st)"

text \<open>\<open>"  ".repeat(level)\<close>.\<close>

definition indentStr :: "nat \<Rightarrow> string" where
  "indentStr level = replicate (2 * level) CHR '' ''"

function (sequential) process :: "json \<Rightarrow> nat \<Rightarrow> enc_state \<Rightarrow> string \<times> enc_state"
and forEachItem :: "json list \<Rightarrow> nat \<Rightarrow> enc_state \<Rightarrow> enc_state"
and forEachKey :: "(string \<times> json) list \<Rightarrow> nat \<Rightarrow> enc_state \<Rightarrow> enc_state"
and forEachEntry :: "(string \<times> json) list \<Rightarrow> nat \<Rightarrow> enc_state \<Rightarrow> enc_state"
where
  "process JNull level st = (''null'', st)"
| "process (JBool b) level st = ((if b then ''yes'' else ''no''), st)"
| "process (JNum n) level st = (numToString n, st)"
| "process (JStr s) level st = (s, st)"
| "process (JArr items) level st =
     (if items = [] then (''[]'', st) else ([], forEachItem items level st))"
| "process (JObj ents) level st =
     (if ents = [] then (''{}'', st) else ([], forEachEntry ents level st))"
| "forEachItem [] level st = st"
| "forEachItem (JArr xs # rest) level st =
     forEachItem rest level
       (snd (process (JArr xs) (level + 1) (push (indentStr level @ ''-'') st)))"
| "forEachItem (JObj es # rest) level st =
     forEachItem rest level
       (forEachKey es level (push (indentStr level @ ''-'') st))"
| "forEachItem (subItem # rest) level st =
     forEachItem rest level
       (let (r, st1) = process subItem 0 st
        in push (indentStr level @ ''- '' @ r) st1)"
| "forEachKey [] level st = st"
| "forEachKey ((k, val) # rest) level st =
     forEachKey rest level
       (let (token, d1) = getToken k (snd st);
            st1 = (fst st, d1)
        in if isComplex val
           then snd (process val (level + 2) (push (indentStr level @ ''  '' @ token @ '': '') st1))
           else (let (r, st2) = process val 0 st1
                 in push (indentStr level @ ''  '' @ token @ '': '' @ r) st2))"
| "forEachEntry [] level st = st"
| "forEachEntry ((k, v) # rest) level st =
     forEachEntry rest level
       (let (token, d1) = getToken k (snd st);
            st1 = (fst st, d1);
            lineStart = indentStr level @ token @ '':''
        in if isComplex v
           then snd (process v (level + 1) (push lineStart st1))
           else (let (r, st2) = process v 0 st1
                 in push (lineStart @ '' '' @ r) st2))"
  by pat_completeness auto
termination
  by (relation "measure (case_sum (case_sum (\<lambda>p. size (fst p)) (\<lambda>p. size_list size (fst p)))
       (case_sum (\<lambda>p. size_list (size_prod (\<lambda>x. 0) size) (fst p))
                 (\<lambda>p. size_list (size_prod (\<lambda>x. 0) size) (fst p))))") auto

text \<open>
  The part of \<open>jsonToToon\<close> after the input has been parsed: an object or an array is
  processed for its lines, which are joined; any other value is returned as \<open>process\<close>
  renders it.
\<close>

definition encodeValue :: "json \<Rightarrow> dict \<Rightarrow> string \<times> dict" where
  "encodeValue obj d =
     (if isComplex obj
      then (let (r, st) = process obj 0 ([], d) in (join_nl (fst st), snd st))
      else (let (r, st) = process obj 0 ([], d) in (r, snd st)))"

text \<open>
  \<open>jsonToToon\<close>. An input of type string is always handed to \<open>JSON.parse\<close>, whatever
  the caller meant by it; a failure is rethrown as \<open>Error("Invalid JSON input")\<close> before
  anything else is done. \<open>JSON.parse\<close> is a parameter of the model, \<open>None\<close> when it
  throws.
\<close>

datatype error = Error string

definition jsonToToon :: "(string \<Rightarrow> json option) \<Rightarrow> json \<Rightarrow> dict \<Rightarrow> error + string \<times> dict" where
  "jsonToToon parse jsonInput d =
     (case (case jsonInput of JStr s \<Rightarrow> parse s | _ \<Rightarrow> Some jsonInput) of
        None \<Rightarrow> Inl (Error ''Invalid JSON input'')
      | Some obj \<Rightarrow> Inr (encodeValue obj d))"

text \<open>\<open>typeof v === 'string'\<close>.\<close>

fun isString :: "json \<Rightarrow> bool" where
  "isString (JStr _) = True"
| "isString _ = False"

subsection \<open>\<open>JSON.parse\<close>\<close>

text \<open>
  The grammar of JSON texts: white space is SPACE, TAB, LF and CR; a number has an
  optional minus sign, an integer part without leading zero, an optional fraction and an
  optional exponent; a string is quoted, has no raw control character, and has the
  escapes \<open>\" \\ \/ \b \f \n \r \t\<close> and \<open>\uXXXX\<close>; a repeated key keeps its first
  position and its last value. An escape above \<open>\u00FF\<close> has no counterpart in the
  model of strings and is written as a failure. The recursion runs on fuel: a call with
  less fuel follows, at most every second time, the consumption of a character, so
  twice the length of the text is enough.
\<close>

definition isJsonWs :: "char \<Rightarrow> bool" where
  "isJsonWs c = (c = CHR '' '' \<or> c = CHR 0x09 \<or> c = CHR 0x0A \<or> c = CHR 0x0D)"

definition skipWs :: "string \<Rightarrow> string" where
  "skipWs s = dropWhile isJsonWs s"

definition jsonNumber :: "string \<Rightarrow> (jsnum \<times> string) option" where
  "jsonNumber s =
     (let neg = (case s of c # _ \<Rightarrow> c = CHR ''-'' | [] \<Rightarrow> False);
          s1 = (if neg then tl s else s);
          ip = takeWhile isDigit s1;
          r1 = dropWhile isDigit s1;
          hasFrac = (case r1 of c # _ \<Rightarrow> c = CHR ''.'' | [] \<Rightarrow> False);
          fp = (if hasFrac then takeWhile isDigit (tl r1) else []);
          r2 = (if hasFrac then dropWhile isDigit (tl r1) else r1);
          hasExp = (case r2 of c # _ \<Rightarrow> c = CHR ''e'' \<or> c = CHR ''E'' | [] \<Rightarrow> False);
          r2' = (if hasExp then tl r2 else r2);
          eneg = (hasExp \<and> (case r2' of c # _ \<Rightarrow> c = CHR ''-'' | [] \<Rightarrow> False));
          esign = (hasExp \<and> (case r2' of c # _ \<Rightarrow> c = CHR ''-'' \<or> c = CHR ''+'' | [] \<Rightarrow> False));
          r2'' = (if esign then tl r2' else r2');
          ep = (if hasExp then takeWhile isDigit r2'' else []);
          r3 = (if hasExp then dropWhile isDigit r2'' else r2);
          m = int (digitsVal (ip @ fp));
          ex = int (digitsVal ep)
      in if ip = [] \<or> (length ip > 1 \<and> hd ip = CHR ''0'') then None
         else if hasFrac \<and> fp = [] then None
         else if hasExp \<and> ep = [] then None
         else Some (normDec (if neg then - m else m) ((if eneg then - ex else ex) - int (length fp)), r3))"

definition escapeChar :: "char \<Rightarrow> char option" where
  "escapeChar e =
     (if e = CHR 0x22 then Some (CHR 0x22)
      else if e = CHR 0x5C then Some (CHR 0x5C)
      else if e = CHR ''/'' then Some (CHR ''/'')
      else if e = CHR ''b'' then Some (CHR 0x08)
      else if e = CHR ''f'' then Some (CHR 0x0C)
      else if e = CHR ''n'' then Some (CHR 0x0A)
      else if e = CHR ''r'' then Some (CHR 0x0D)
      else if e = CHR ''t'' then Some (CHR 0x09)
      else None)"

definition hex4 :: "string \<Rightarrow> char option" where
  "hex4 hs =
     (if length hs = 4 then
        (case radixVal 16 hs of
           Some n \<Rightarrow> if n < 256 then Some (char_of n) else None
         | None \<Rightarrow> None)
      else None)"

text \<open>The characters of a string after its opening quote, and the text after its closing quote.\<close>

fun jsonChars :: "string \<Rightarrow> (string \<times> string) option" where
  "jsonChars [] = None"
| "jsonChars (c # cs) =
     (if c = CHR 0x22 then Some ([], cs)
      else if c = CHR 0x5C then
        (case cs of
           [] \<Rightarrow> None
         | e # r \<Rightarrow>
             if e = CHR ''u'' then
               (case hex4 (take 4 r) of
                  None \<Rightarrow> None
                | Some ch \<Rightarrow>
                    (case jsonChars (drop 4 r) of
                       None \<Rightarrow> None
                     | Some (str, rest) \<Rightarrow> Some (ch # str, rest)))
             else
               (case escapeChar e of
                  None \<Rightarrow> None
                | Some ch \<Rightarrow>
                    (case jsonChars r of
                       None \<Rightarrow> None
                     | Some (str, rest) \<Rightarrow> Some (ch # str, rest))))
      else if (of_char c :: nat) < 32 then None
      else (case jsonChars cs of
              None \<Rightarrow> None
            | Some (str, rest) \<Rightarrow> Some (c # str, rest)))"

fun jsonValue :: "nat \<Rightarrow> string \<Rightarrow> (json \<times> string) option"
and jsonElements :: "nat \<Rightarrow> string \<Rightarrow> (json list \<times> string) option"
and jsonMembers :: "nat \<Rightarrow> string \<Rightarrow> ((string \<times> json) list \<times> string) option"
where
  "jsonValue 0 s = None"
| "jsonValue (Suc n) s =
     (case skipWs s of
        [] \<Rightarrow> None
      | c # r \<Rightarrow>
          if c = CHR ''{'' then
            (case skipWs r of
               [] \<Rightarrow> None
             | c' # r' \<Rightarrow>
                 if c' = CHR ''}'' then Some (JObj [], r')
                 else (case jsonMembers n r of
                         None \<Rightarrow> None
                       | Some (es, rest) \<Rightarrow> Some (JObj (objectOf es), rest)))
          else if c = CHR ''['' then
            (case skipWs r of
               [] \<Rightarrow> None
             | c' # r' \<Rightarrow>
                 if c' = CHR '']'' then Some (JArr [], r')
                 else (case jsonElements n r of
                         None \<Rightarrow> None
                       | Some (vs, rest) \<Rightarrow> Some (JArr vs, rest)))
          else if c = CHR 0x22 then
            (case jsonChars r of None \<Rightarrow> None | Some (str, rest) \<Rightarrow> Some (JStr str, rest))
          else if take 4 (c # r) = ''true'' then Some (JBool True, drop 4 (c # r))
          else if take 5 (c # r) = ''false'' then Some (JBool False, drop 5 (c # r))
          else if take 4 (c # r) = ''null'' then Some (JNull, drop 4 (c # r))
          else (case jsonNumber (c # r) of
                  None \<Rightarrow> None
                | Some (x, rest) \<Rightarrow> Some (JNum x, rest)))"
| "jsonElements 0 s = None"
| "jsonElements (Suc n) s =
     (case jsonValue n s of
        None \<Rightarrow> None
      | Some (v, r) \<Rightarrow>
          (case skipWs r of
             [] \<Rightarrow> None
           | c # r' \<Rightarrow>
               if c = CHR '']'' then Some ([v], r')
               else if c = CHR '','' then
                 (case jsonElements n r' of
                    None \<Rightarrow> None
                  | Some (vs, rest) \<Rightarrow> Some (v # vs, rest))
               else None))"
| "jsonMembers 0 s = None"
| "jsonMembers (Suc n) s =
     (case skipWs s of
        [] \<Rightarrow> None
      | q # r \<Rightarrow>
          if q \<noteq> CHR 0x22 then None
          else (case jsonChars r of
                  None \<Rightarrow> None
                | Some (k, r1) \<Rightarrow>
                    (case skipWs r1 of
                       [] \<Rightarrow> None
                     | c # r2 \<Rightarrow>
                         if c \<noteq> CHR '':'' then None
                         else (case jsonValue n r2 of
                                 None \<Rightarrow> None
                               | Some (v, r3) \<Rightarrow>
                                   (case skipWs r3 of
                                      [] \<Rightarrow> None
                                    | c' # r4 \<Rightarrow>
                                        if c' = CHR ''}'' then Some ([(k, v)], r4)
                                        else if c' = CHR '','' then
                                          (case jsonMembers n r4 of
                                             None \<Rightarrow> None
                                           | Some (es, rest) \<Rightarrow> Some ((k, v) # es, rest))
                                        else None)))))"

definition JSON_parse :: "string \<Rightarrow> json option" where
  "JSON_parse text =
     (case jsonValue (2 * length text + 2) text of
        None \<Rightarrow> None
      | Some (v, rest) \<Rightarrow> if skipWs rest = [] then Some v else None)"

section \<open>The decoder: \<open>toonToJson\<close>\<close>

subsection \<open>Scalar parsing\<close>

text \<open>\<open>parseValue\<close>; its argument is the \<open>value\<close> field of a node, \<open>null\<close> or a string.\<close>

definition parseValue :: "string option \<Rightarrow> json" where
  "parseValue val =
     (case val of
        None \<Rightarrow> JNull
      | Some s \<Rightarrow>
          (let v = trim s in
           if v = ''yes'' then JBool True
           else if v = ''no'' then JBool False
           else (case toNumber v of Some n \<Rightarrow> JNum n | None \<Rightarrow> JStr v)))"

subsection \<open>Pass 1: the tree of nodes\<close>

text \<open>
  A node with the children it owns. The \<open>parent\<close> links of the source are kept outside the
  nodes: the nodes that can be reached from \<open>lastNode\<close> along \<open>parent\<close> are held as a list,
  the chain, with \<open>lastNode\<close> first and \<open>rootNode\<close> last. These are the only nodes whose
  \<open>children\<close> can still grow. A node of the chain lists the children below it that have
  left the chain; the next node towards \<open>lastNode\<close> is its last child and is attached
  when the walk steps over it.
\<close>

datatype node =
  Node (indent: int) (key: "string option") (nvalue: "string option")
       (children: "node list") (isArrayItem: bool)

definition rootNode :: node where
  "rootNode = Node (- 1) None None [] False"

definition addChild :: "node \<Rightarrow> node \<Rightarrow> node" where
  "addChild p c = Node (indent p) (key p) (nvalue p) (children p @ [c]) (isArrayItem p)"

text \<open>
  \<open>findParent\<close>: \<open>while (curr && curr.indent >= indent) curr = curr.parent\<close>, then
  \<open>curr || rootNode\<close>. On a chain of one node, which is \<open>rootNode\<close>, the result is
  \<open>rootNode\<close> whether the loop stops there or runs on to \<open>null\<close>.
\<close>

fun findParent :: "int \<Rightarrow> node list \<Rightarrow> node list" where
  "findParent i [] = []"
| "findParent i [r] = [r]"
| "findParent i (cur # p # ps) =
     (if indent cur \<ge> i then findParent i (addChild p cur # ps) else cur # p # ps)"

text \<open>One line of the input: an array item, a key with its value, or nothing.\<close>

definition lineNode :: "string \<Rightarrow> node option" where
  "lineNode line =
     (let ind = search_nonspace line;
          content = trim line
      in if startsWithDash content then
           (let valuePart = trim (drop 1 content)
            in Some (Node ind None (if valuePart = [] then None else Some valuePart) [] True))
         else if includesColon content then
           (let colonIdx = indexOfColon content;
                token = trim (take colonIdx content);
                valPart = trim (drop (colonIdx + 1) content)
            in Some (Node ind (Some token) (if valPart = [] then None else Some valPart) [] False))
         else None)"

definition addLine :: "node list \<Rightarrow> string \<Rightarrow> node list" where
  "addLine chain line =
     (case lineNode line of
        None \<Rightarrow> chain
      | Some newNode \<Rightarrow> newNode # findParent (indent newNode) chain)"

text \<open>\<open>rootNode\<close> as it is after the loop: every node of the chain attached to its parent.\<close>

fun closeChain :: "node list \<Rightarrow> node" where
  "closeChain [] = rootNode"
| "closeChain [r] = r"
| "closeChain (c # p # ps) = closeChain (addChild p c # ps)"

definition nonBlankLines :: "string \<Rightarrow> string list" where
  "nonBlankLines toonInput = filter (\<lambda>l. trim l \<noteq> []) (split_nl toonInput)"

definition buildTree :: "string \<Rightarrow> node" where
  "buildTree toonInput = closeChain (foldl addLine [rootNode] (nonBlankLines toonInput))"

subsection \<open>Pass 2: from the tree to a value\<close>

text \<open>
  A result object is built by assignments \<open>obj[realKey] = ...\<close>, modelled by \<open>setProp\<close>.
  The numeric ordering of integer-like property names and the special property
  \<open>__proto__\<close> are outside the model.
\<close>

definition keyName :: "dict \<Rightarrow> node \<Rightarrow> string" where
  "keyName d c = getKey d (case key c of Some t \<Rightarrow> t | None \<Rightarrow> ''null'')"

definition keyTruthy :: "node \<Rightarrow> bool" where
  "keyTruthy c = (case key c of Some t \<Rightarrow> t \<noteq> [] | None \<Rightarrow> False)"

fun convertNode :: "dict \<Rightarrow> node \<Rightarrow> json" where
  "convertNode d (Node ind k v cs isArr) =
     (if cs \<noteq> [] then
        (if list_all isArrayItem cs then
           JArr (map (\<lambda>c. if nvalue c \<noteq> None \<and> children c = [] then parseValue (nvalue c)
                          else if children c \<noteq> [] then convertNode d c
                          else JNull) cs)
         else if list_all (\<lambda>c. \<not> isArrayItem c) cs then
           JObj (foldl (\<lambda>obj c.
                   setProp (keyName d c)
                     (if nvalue c \<noteq> None \<and> children c = [] then parseValue (nvalue c)
                      else convertNode d c) obj) [] cs)
         else
           JObj (foldl (\<lambda>obj c.
                   if keyTruthy c
                   then setProp (keyName d c)
                          (if children c \<noteq> [] then convertNode d c else parseValue (nvalue c)) obj
                   else obj) [] cs))
      else parseValue v)"

text \<open>The value that \<open>toonToJson\<close> hands to \<open>JSON.stringify\<close>.\<close>

definition toonToJsonValue :: "dict \<Rightarrow> string \<Rightarrow> json" where
  "toonToJsonValue d toonInput =
     (let cs = children (buildTree toonInput) in
      if list_all isArrayItem cs then
        JArr (map (\<lambda>c. if children c \<noteq> [] then convertNode d c else parseValue (nvalue c)) cs)
      else
        JObj (foldl (\<lambda>obj c.
                if keyTruthy c
                then setProp (keyName d c)
                       (if children c \<noteq> [] then convertNode d c else parseValue (nvalue c)) obj
                else obj) [] cs))"

subsection \<open>\<open>JSON.stringify(value, null, 2)\<close>\<close>

definition hexDigit :: "nat \<Rightarrow> char" where
  "hexDigit n = ''0123456789abcdef'' ! n"

definition quoteChar :: "char \<Rightarrow> string" where
  "quoteChar c =
     (if c = CHR 0x22 then [CHR 0x5C, CHR 0x22]
      else if c = CHR 0x5C then [CHR 0x5C, CHR 0x5C]
      else if c = CHR 0x08 then [CHR 0x5C, CHR ''b'']
      else if c = CHR 0x0C then [CHR 0x5C, CHR ''f'']
      else if c = CHR 0x0A then [CHR 0x5C, CHR ''n'']
      else if c = CHR 0x0D then [CHR 0x5C, CHR ''r'']
      else if c = CHR 0x09 then [CHR 0x5C, CHR ''t'']
      else if (of_char c :: nat) < 32
        then [CHR 0x5C, CHR ''u'', CHR ''0'', CHR ''0'',
              hexDigit (of_char c div 16), hexDigit (of_char c mod 16)]
      else [c])"

definition quoteJSON :: "string \<Rightarrow> string" where
  "quoteJSON s = CHR 0x22 # concat (map quoteChar s) @ [CHR 0x22]"

fun joinWith :: "string \<Rightarrow> string list \<Rightarrow> string" where
  "joinWith sep [] = []"
| "joinWith sep [x] = x"
| "joinWith sep (x # y # ys) = x @ sep @ joinWith sep (y # ys)"

fun stringify :: "string \<Rightarrow> json \<Rightarrow> string" where
  "stringify ind JNull = ''null''"
| "stringify ind (JBool b) = (if b then ''true'' else ''false'')"
| "stringify ind (JNum n) = (if isFinite n then numToString n else ''null'')"
| "stringify ind (JStr s) = quoteJSON s"
| "stringify ind (JArr xs) =
     (if xs = [] then ''[]''
      else CHR ''['' # CHR 0x0A # (ind @ ''  '')
           @ joinWith (CHR '','' # CHR 0x0A # (ind @ ''  '')) (map (stringify (ind @ ''  '')) xs)
           @ CHR 0x0A # ind @ '']'')"
| "stringify ind (JObj es) =
     (if es = [] then ''{}''
      else CHR ''{'' # CHR 0x0A # (ind @ ''  '')
           @ joinWith (CHR '','' # CHR 0x0A # (ind @ ''  ''))
               (map (\<lambda>(k, v). quoteJSON k @ '': '' @ stringify (ind @ ''  '') v) es)
           @ CHR 0x0A # ind @ ''}'')"

definition toonToJson :: "dict \<Rightarrow> string \<Rightarrow> string" where
  "toonToJson d toonInput = stringify [] (toonToJsonValue d toonInput)"

section \<open>States of a converter\<close>






text \<open>
  The invariant of the dictionary: each map is a function, \<open>tokenToKey\<close> holds exactly the
  reversed entries of \<open>keyToToken\<close>, no token is empty, and the counter is above the numeric
  value of every token in use.
\<close>

definition dictInv :: "dict \<Rightarrow> bool" where
  "dictInv d \<longleftrightarrow>
     distinct (map fst (keyToToken d)) \<and> distinct (map fst (tokenToKey d))
     \<and> set (tokenToKey d) = (\<lambda>(k, t). (t, k)) ` set (keyToToken d)
     \<and> [] \<notin> snd ` set (keyToToken d)
     \<and> (\<forall>t \<in> snd ` set (keyToToken d). \<forall>n. parseInt10 t = Some n \<longrightarrow> n < nextTokenId d)"

section \<open>The values that survive a round trip\<close>




text \<open>The keys that occur in a value, at any depth.\<close>

fun keysOf :: "json \<Rightarrow> string set" where
  "keysOf (JArr xs) = (\<Union>x \<in> set xs. keysOf x)"
| "keysOf (JObj es) = (\<Union>e \<in> set es. insert (fst e) (keysOf (snd e)))"
| "keysOf _ = {}"

text \<open>The text of a value that is not an array or an object, as \<open>process\<close> returns it.\<close>

fun render :: "json \<Rightarrow> string" where
  "render JNull = ''null''"
| "render (JBool b) = (if b then ''yes'' else ''no'')"
| "render (JNum n) = numToString n"
| "render (JStr s) = s"
| "render _ = []"

text \<open>
  The lines that \<open>process\<close> pushes for an array or an object, as a function of the token
  \<open>t k\<close> of each key \<open>k\<close>.
\<close>

function (sequential) linesOf :: "(string \<Rightarrow> string) \<Rightarrow> nat \<Rightarrow> json \<Rightarrow> string list"
and itemLines :: "(string \<Rightarrow> string) \<Rightarrow> nat \<Rightarrow> json list \<Rightarrow> string list"
and keyLines :: "(string \<Rightarrow> string) \<Rightarrow> nat \<Rightarrow> (string \<times> json) list \<Rightarrow> string list"
and entryLines :: "(string \<Rightarrow> string) \<Rightarrow> nat \<Rightarrow> (string \<times> json) list \<Rightarrow> string list"
where
  "linesOf t level (JArr xs) = itemLines t level xs"
| "linesOf t level (JObj es) = entryLines t level es"
| "linesOf t level _ = []"
| "itemLines t level [] = []"
| "itemLines t level (JArr xs # rest) =
     (indentStr level @ ''-'') # linesOf t (level + 1) (JArr xs) @ itemLines t level rest"
| "itemLines t level (JObj es # rest) =
     (indentStr level @ ''-'') # keyLines t level es @ itemLines t level rest"
| "itemLines t level (x # rest) =
     (indentStr level @ ''- '' @ render x) # itemLines t level rest"
| "keyLines t level [] = []"
| "keyLines t level ((k, v) # rest) =
     (if isComplex v
      then (indentStr level @ ''  '' @ t k @ '': '') # linesOf t (level + 2) v
      else [indentStr level @ ''  '' @ t k @ '': '' @ render v])
     @ keyLines t level rest"
| "entryLines t level [] = []"
| "entryLines t level ((k, v) # rest) =
     (if isComplex v
      then (indentStr level @ t k @ '':'') # linesOf t (level + 1) v
      else [indentStr level @ t k @ '':'' @ '' '' @ render v])
     @ entryLines t level rest"
  by pat_completeness auto
termination
  by (relation "measure (case_sum (case_sum (\<lambda>p. size (snd (snd p))) (\<lambda>p. size_list size (snd (snd p))))
       (case_sum (\<lambda>p. size_list (size_prod (\<lambda>x. 0) size) (snd (snd p)))
                 (\<lambda>p. size_list (size_prod (\<lambda>x. 0) size) (snd (snd p)))))") auto





text \<open>The token of a key in a dictionary where it is registered.\<close>

definition tokenOf :: "dict \<Rightarrow> string \<Rightarrow> string" where
  "tokenOf d k = (case map_of (keyToToken d) k of Some t \<Rightarrow> t | None \<Rightarrow> [])"

text \<open>
  The dictionary of a converter constructed without an initial map: the invariant, and
  every token a non-empty string of digits.
\<close>

definition freshInv :: "dict \<Rightarrow> bool" where
  "freshInv d \<longleftrightarrow>
     dictInv d \<and> 0 \<le> nextTokenId d
     \<and> (\<forall>t \<in> snd ` set (keyToToken d). t \<noteq> [] \<and> (\<forall>c \<in> set t. isDigit c))"

text \<open>Every assignment of the first dictionary is one of the second.\<close>

definition extends :: "dict \<Rightarrow> dict \<Rightarrow> bool" where
  "extends d d' \<longleftrightarrow> (\<forall>k t. map_of (keyToToken d) k = Some t \<longrightarrow> map_of (keyToToken d') k = Some t)"



text \<open>
  \<open>dictAfter d K d'\<close>: the dictionary \<open>d'\<close> comes after \<open>d\<close>, keeps its assignments, and has a
  token for every key of \<open>K\<close>.
\<close>

definition dictAfter :: "dict \<Rightarrow> string set \<Rightarrow> dict \<Rightarrow> bool" where
  "dictAfter d K d' \<longleftrightarrow> freshInv d' \<and> extends d d' \<and> (\<forall>k \<in> K. map_of (keyToToken d') k \<noteq> None)"


section \<open>Basic facts\<close>

subsection \<open>Objects as association lists\<close>




lemma setProp_new: "k \<notin> fst ` set m \<Longrightarrow> setProp k v m = m @ [(k, v)]"
  by (induction m) auto

lemma length_setProp:
  "length (setProp k v m) = (if k \<in> fst ` set m then length m else Suc (length m))"
  by (induction m) auto

lemma set_setProp:
  "distinct (map fst m) \<Longrightarrow> set (setProp k v m) = insert (k, v) {p \<in> set m. fst p \<noteq> k}"
  by (induction m) (auto simp: rev_image_eqI)



lemma objectOf_aux:
  "distinct (map fst (acc @ es)) \<Longrightarrow> foldl (\<lambda>acc (k, v). setProp k v acc) acc es = acc @ es"
proof (induction es arbitrary: acc)
  case Nil then show ?case by simp
next
  case (Cons e es)
  obtain k v where e: "e = (k, v)" by (cases e)
  have "k \<notin> fst ` set acc" using Cons.prems e by auto
  then have "setProp k v acc = acc @ [(k, v)]" by (rule setProp_new)
  then show ?case using Cons.IH[of "acc @ [(k, v)]"] Cons.prems e by simp
qed

lemma objectOf_distinct: "distinct (map fst es) \<Longrightarrow> objectOf es = es"
  unfolding objectOf_def using objectOf_aux[of "[]" es] by simp
















section \<open>The dictionary\<close>

subsection \<open>The encoder changes the dictionary through \<open>getToken\<close> only\<close>





subsection \<open>Tokens and keys\<close>





















subsection \<open>The invariant of the dictionary\<close>



lemma map_of_mem: "distinct (map fst m) \<Longrightarrow> (map_of m k = Some v) = ((k, v) \<in> set m)"
  by simp











subsection \<open>\<open>getKey\<close>\<close>


lemma getKey_unregistered:
  "map_of (tokenToKey d) token = None \<Longrightarrow> getKey d token = ''UNKNOWN_'' @ token"
  by (simp add: getKey_def truthyProp_def)

lemma decode_unknown_token:
  "toonToJsonValue (constructor []) ''99: value'' = JObj [(''UNKNOWN_99'', JStr ''value'')]"
  by code_simp

lemma decode_unknown_token_text:
  "toonToJson (constructor []) ''99: value''
     = CHR ''{'' # CHR 0x0A # ''  '' @ CHR 0x22 # ''UNKNOWN_99'' @ CHR 0x22 # '': '' @ CHR 0x22 # ''value'' @ CHR 0x22 # CHR 0x0A # ''}''"
  by code_simp

text \<open>
  Claim C7. The key of a registered token is returned when it is not the empty string, and
  the placeholder is returned for an unregistered token, as the lemmas above show. For
  the registered key \<open>""\<close> the claim fails: encoding \<open>{"": 1}\<close> registers the token \<open>01\<close> for
  the key \<open>""\<close>, and \<open>getKey\<close> answers \<open>UNKNOWN_01\<close> for it, so that the text \<open>01: 1\<close> decodes
  to \<open>{"UNKNOWN_01": 1}\<close>.
\<close>

theorem getKey_empty_key:
  "encodeValue (JObj [('''', JNum (Fin 1 0))]) (constructor [])
     = (''01: 1'', \<lparr> keyToToken = [('''', ''01'')], tokenToKey = [(''01'', '''')], nextTokenId = 2 \<rparr>)
   \<and> getKey \<lparr> keyToToken = [('''', ''01'')], tokenToKey = [(''01'', '''')], nextTokenId = 2 \<rparr> ''01''
       = ''UNKNOWN_01''
   \<and> toonToJsonValue \<lparr> keyToToken = [('''', ''01'')], tokenToKey = [(''01'', '''')], nextTokenId = 2 \<rparr>
        ''01: 1'' = JObj [(''UNKNOWN_01'', JNum (Fin 1 0))]"
  by code_simp

section \<open>The decoder\<close>

subsection \<open>White space\<close>

lemma dropWhile_all: "\<forall>c \<in> set s. P c \<Longrightarrow> dropWhile P s = []"
  by simp



lemma set_trim: "set (trim l) \<subseteq> set l"
proof -
  have "set (trim l) = set (dropWhile isWhite (rev (dropWhile isWhite l)))" by (simp add: trim_def)
  also have "\<dots> \<subseteq> set (rev (dropWhile isWhite l))" by (rule set_dropWhileD[THEN subsetI])
  also have "\<dots> \<subseteq> set l" using set_dropWhileD[of _ isWhite l] by auto
  finally show ?thesis .
qed



subsection \<open>The walk along the parent links\<close>


lemma indent_addChild [simp]: "indent (addChild p c) = indent p"
  by (simp add: addChild_def)

lemma children_addChild [simp]: "children (addChild p c) = children p @ [c]"
  by (simp add: addChild_def)







lemma lineNode_none:
  "\<not> startsWithDash (trim l) \<Longrightarrow> \<not> includesColon l \<Longrightarrow> lineNode l = None"
  using set_trim[of l] by (auto simp: lineNode_def includesColon_def Let_def)

lemma foldl_addLine_none: "\<forall>l \<in> set ls. lineNode l = None \<Longrightarrow> foldl addLine ch ls = ch"
  by (induction ls arbitrary: ch) (simp_all add: addLine_def)

text \<open>
  Claim C10. If no non-blank line of the input starts, after its indentation, with a dash
  or contains a colon, then no node is created, the root keeps no children, and the
  result is the empty array, serialized as \<open>[]\<close>. The empty text and a text of white space
  only are instances.
\<close>

theorem decode_no_nodes:
  assumes "\<forall>l \<in> set (nonBlankLines toonInput). \<not> startsWithDash (trim l) \<and> \<not> includesColon l"
  shows "buildTree toonInput = rootNode
       \<and> toonToJsonValue d toonInput = JArr []
       \<and> toonToJson d toonInput = ''[]''"
proof -
  have "\<forall>l \<in> set (nonBlankLines toonInput). lineNode l = None"
    using assms by (simp add: lineNode_none)
  then have "foldl addLine [rootNode] (nonBlankLines toonInput) = [rootNode]"
    by (rule foldl_addLine_none)
  then have b: "buildTree toonInput = rootNode" by (simp add: buildTree_def)
  have v: "toonToJsonValue d toonInput = JArr []"
    by (simp add: toonToJsonValue_def b rootNode_def)
  show ?thesis using b v by (simp add: toonToJson_def)
qed

theorem decode_no_nodes_witness:
  "nonBlankLines (''just text'' @ [CHR 0x0A] @ ''   '' @ [CHR 0x0A] @ ''more'') = [''just text'', ''more'']
   \<and> \<not> startsWithDash (trim ''just text'') \<and> \<not> includesColon ''just text''
   \<and> \<not> startsWithDash (trim ''more'') \<and> \<not> includesColon ''more''
   \<and> toonToJson (constructor []) (''just text'' @ [CHR 0x0A] @ ''   '' @ [CHR 0x0A] @ ''more'') = ''[]''
   \<and> toonToJson (constructor []) [] = ''[]''
   \<and> toonToJson (constructor []) ''   '' = ''[]''"
proof -
  have n: "nonBlankLines (''just text'' @ [CHR 0x0A] @ ''   '' @ [CHR 0x0A] @ ''more'') = [''just text'', ''more'']"
    by code_simp
  have e: "nonBlankLines [] = []" "nonBlankLines ''   '' = []" by code_simp+
  have h: "\<not> startsWithDash (trim ''just text'') \<and> \<not> includesColon ''just text''
         \<and> \<not> startsWithDash (trim ''more'') \<and> \<not> includesColon ''more''"
    by code_simp
  show ?thesis
    using decode_no_nodes[of "''just text'' @ [CHR 0x0A] @ ''   '' @ [CHR 0x0A] @ ''more''" "constructor []"]
          decode_no_nodes[of "[]" "constructor []"] decode_no_nodes[of "''   ''" "constructor []"]
          n e h
    by simp
qed

text \<open>The chain before and after the line \<open>02: x\<close>.\<close>

lemma parent_resolution_example:
  "foldl addLine [rootNode] [''01:'', ''  - a'', ''  - b'']
     = [Node 2 None (Some ''b'') [] True,
        Node 0 (Some ''01'') None [Node 2 None (Some ''a'') [] True] False,
        Node (- 1) None None [] False]
   \<and> foldl addLine [rootNode] [''01:'', ''  - a'', ''  - b'', ''02: x'']
     = [Node 0 (Some ''02'') (Some ''x'') [] False,
        Node (- 1) None None
          [Node 0 (Some ''01'') None
             [Node 2 None (Some ''a'') [] True, Node 2 None (Some ''b'') [] True] False] False]"
  by code_simp


section \<open>Scalars and empty containers\<close>

lemma encodeValue_empty_array: "encodeValue (JArr []) d = ([], d)"
  by (simp add: encodeValue_def)

lemma encodeValue_empty_object: "encodeValue (JObj []) d = ([], d)"
  by (simp add: encodeValue_def)

text \<open>
  Claim C2. \<open>process\<close> returns \<open>[]\<close> for the empty array and \<open>{}\<close> for the empty object,
  but every caller of \<open>process\<close> on an array or an object drops the returned string: at
  the root the (empty) list of lines is joined, so the output is the empty string, and
  after a key the line ends with the colon. The literals \<open>[]\<close> and \<open>{}\<close> are never part of
  the output.
\<close>

theorem empty_containers_encoding:
  "fst (process (JArr []) level st) = ''[]'' \<and> fst (process (JObj []) level st) = ''{}''
   \<and> fst (encodeValue (JArr []) d) = [] \<and> fst (encodeValue (JObj []) d) = []
   \<and> fst (encodeValue (JObj [(''a'', JArr [])]) (constructor [])) = ''01:''
   \<and> fst (encodeValue (JObj [(''a'', JObj [])]) (constructor [])) = ''01:''
   \<and> fst (encodeValue (JArr [JArr [], JObj []]) (constructor [])) = ''-'' @ [CHR 0x0A] @ ''-''"
proof -
  have "fst (encodeValue (JObj [(''a'', JArr [])]) (constructor [])) = ''01:''"
    and "fst (encodeValue (JObj [(''a'', JObj [])]) (constructor [])) = ''01:''"
    and "fst (encodeValue (JArr [JArr [], JObj []]) (constructor [])) = ''-'' @ [CHR 0x0A] @ ''-''"
    by code_simp+
  then show ?thesis by (simp add: encodeValue_empty_array encodeValue_empty_object)
qed





text \<open>
  Scalar parsing. An absent value is \<open>null\<close>; \<open>yes\<close> and \<open>no\<close> are the booleans; a text
  that \<open>Number\<close> accepts is that number; any other text is itself. The comparison is
  case-sensitive. An empty value never reaches \<open>parseValue\<close>: the node has \<open>null\<close> for it.
\<close>

lemma parseValue_absent: "parseValue None = JNull"
  by (simp add: parseValue_def)

lemma parseValue_number:
  "trim s \<noteq> ''yes'' \<Longrightarrow> trim s \<noteq> ''no'' \<Longrightarrow> toNumber (trim s) = Some n \<Longrightarrow> parseValue (Some s) = JNum n"
  by (simp add: parseValue_def)

lemma parseValue_string:
  "trim s \<noteq> ''yes'' \<Longrightarrow> trim s \<noteq> ''no'' \<Longrightarrow> toNumber (trim s) = None \<Longrightarrow> parseValue (Some s) = JStr (trim s)"
  by (simp add: parseValue_def)

lemma parseValue_case_sensitive:
  "parseValue (Some ''Yes'') = JStr ''Yes''" "parseValue (Some ''NO'') = JStr ''NO''"
  "parseValue (Some ''9001'') = JNum (Fin 9001 0)" "parseValue (Some ''Goku'') = JStr ''Goku''"
  by code_simp+

lemma lineNode_empty_value: "lineNode ''01:'' = Some (Node 0 (Some ''01'') None [] False)"
  by code_simp

text \<open>
  Claim C4. The claim holds but for the text \<open>null\<close>: it is not the value \<open>null\<close>, not
  \<open>yes\<close> or \<open>no\<close> and not a number, so \<open>parseValue\<close> returns the string \<open>"null"\<close>. The
  encoder writes \<open>null\<close> for the value \<open>null\<close>, which therefore comes back as a string.
\<close>

theorem parseValue_null_text:
  "parseValue (Some ''null'') = JStr ''null''
   \<and> toonToJsonValue (constructor []) ''01: null'' = JObj [(''UNKNOWN_01'', JStr ''null'')]
   \<and> encodeValue (JObj [(''a'', JNull)]) (constructor [])
       = (''01: null'', \<lparr> keyToToken = [(''a'', ''01'')], tokenToKey = [(''01'', ''a'')], nextTokenId = 2 \<rparr>)
   \<and> toonToJsonValue \<lparr> keyToToken = [(''a'', ''01'')], tokenToKey = [(''01'', ''a'')], nextTokenId = 2 \<rparr>
        ''01: null'' = JObj [(''a'', JStr ''null'')]"
  by code_simp


section \<open>Errors of the encoder\<close>

text \<open>
  Claim C8, amended. \<open>jsonToToon\<close> tells raw text from an in-memory value by
  \<open>typeof jsonInput === 'string'\<close> alone, so a JSON value that is a string is always read
  as raw text. For every parser in the place of \<open>JSON.parse\<close>: an input that is not a
  string is encoded as it is and never fails; an input that is a string fails exactly
  when the parser rejects it, the failure is \<open>Error("Invalid JSON input")\<close> and carries no
  output, and a string the parser accepts is encoded as the value it parses to.
\<close>

theorem jsonToToon_errors:
  "(\<not> isString v \<longrightarrow> jsonToToon parse v d = Inr (encodeValue v d))
   \<and> ((\<exists>e. jsonToToon parse (JStr s) d = Inl e) \<longleftrightarrow> parse s = None)
   \<and> (parse s = None \<longrightarrow> jsonToToon parse (JStr s) d = Inl (Error ''Invalid JSON input''))
   \<and> (\<forall>obj. parse s = Some obj \<longrightarrow> jsonToToon parse (JStr s) d = Inr (encodeValue obj d))"
  by (cases v; cases "parse s") (simp_all add: jsonToToon_def)

text \<open>
  The three cases on a fresh converter: the array \<open>[1]\<close> in memory, the text \<open>[1 2]\<close>,
  which is not JSON, and the text \<open>[1]\<close>.
\<close>

theorem jsonToToon_errors_witness:
  "\<not> isString (JArr [JNum (Fin 1 0)])
   \<and> jsonToToon JSON_parse (JArr [JNum (Fin 1 0)]) (constructor []) = Inr (''- 1'', constructor [])
   \<and> JSON_parse ''[1 2]'' = None
   \<and> jsonToToon JSON_parse (JStr ''[1 2]'') (constructor []) = Inl (Error ''Invalid JSON input'')
   \<and> JSON_parse ''[1]'' = Some (JArr [JNum (Fin 1 0)])
   \<and> jsonToToon JSON_parse (JStr ''[1]'') (constructor []) = Inr (''- 1'', constructor [])"
proof -
  let ?v = "JArr [JNum (Fin 1 0)]"
  let ?d = "constructor []"
  have n: "\<not> isString ?v" by simp
  have bad: "JSON_parse ''[1 2]'' = None" by code_simp
  have ok: "JSON_parse ''[1]'' = Some ?v" by code_simp
  have enc: "encodeValue ?v ?d = (''- 1'', ?d)" by code_simp
  from jsonToToon_errors[of ?v JSON_parse ?d "''[1 2]''"] n bad enc
  have a: "jsonToToon JSON_parse ?v ?d = Inr (''- 1'', ?d)"
    and b: "jsonToToon JSON_parse (JStr ''[1 2]'') ?d = Inl (Error ''Invalid JSON input'')"
    by simp_all
  from jsonToToon_errors[of ?v JSON_parse ?d "''[1]''"] ok enc
  have c: "jsonToToon JSON_parse (JStr ''[1]'') ?d = Inr (''- 1'', ?d)"
    by simp
  from n a bad b ok c show ?thesis by blast
qed

text \<open>
  Claim C8 as stated fails for the JSON value that is the string \<open>Goku\<close>: it is a valid
  in-memory JSON value, and \<open>jsonToToon\<close> throws on it.
\<close>

theorem jsonToToon_string_counterexample:
  "isString (JStr ''Goku'')
   \<and> jsonToToon JSON_parse (JStr ''Goku'') (constructor []) = Inl (Error ''Invalid JSON input'')"
  by code_simp
section \<open>The round trip\<close>


lemmas lines_induct =
  linesOf_itemLines_keyLines_entryLines.induct
    [case_names linesArr linesObj linesNull linesBool linesNum linesStr
                itemsNil itemsArr itemsObj itemsNull itemsBool itemsNum itemsStr
                keysNil keysCons entriesNil entriesCons]


subsection \<open>Building a forest from its lines\<close>





lemma foldl_addChild_indent [simp]: "indent (foldl addChild c ns) = indent c"
  by (induction ns arbitrary: c) simp_all




subsection \<open>The node of a line\<close>

























section \<open>\<open>Number\<close> reads back what \<open>toString\<close> writes\<close>























subsection \<open>From the nodes back to the value\<close>













subsection \<open>Joining and splitting the lines\<close>








subsection \<open>Decoding the lines of a value\<close>


subsection \<open>The lines of the encoder\<close>

lemma lines_cong:
  "\<forall>k \<in> keysOf v. t k = t' k \<Longrightarrow> linesOf t l v = linesOf t' l v"
  "\<forall>x \<in> set xs. \<forall>k \<in> keysOf x. t k = t' k \<Longrightarrow> itemLines t l xs = itemLines t' l xs"
  "\<forall>e \<in> set es. \<forall>k \<in> insert (fst e) (keysOf (snd e)). t k = t' k \<Longrightarrow> keyLines t l es = keyLines t' l es"
  "\<forall>e \<in> set es'. \<forall>k \<in> insert (fst e) (keysOf (snd e)). t k = t' k \<Longrightarrow>
     entryLines t l es' = entryLines t' l es'"
  by (induction t l v and t l xs and t l es and t l es'
        rule: lines_induct) auto














lemma after_mono: "dictAfter d K d' \<Longrightarrow> K' \<subseteq> K \<Longrightarrow>  dictAfter d K' d'"
  by (auto simp: dictAfter_def)









lemma keysOf_Cons:
  "keysOf (JArr (x # xs)) = keysOf x \<union> keysOf (JArr xs)"
  "keysOf (JObj ((k, v) # es)) = insert k (keysOf v) \<union> keysOf (JObj es)"
  by auto


lemma lines_depend:
  "\<forall>d d'. (\<forall>k \<in> keysOf v. tokenOf d k = tokenOf d' k)
      \<longrightarrow> linesOf (tokenOf d) l v = linesOf (tokenOf d') l v"
  by (simp add: lines_cong(1))





subsection \<open>Encoding, then decoding\<close>





end
